theory Spec2Isabelle
  imports Complex_Main "HOL-Library.Multiset" "HOL-Library.Sublist"
begin

section \<open>Python values\<close>

text \<open>
  The scraped listings are JSON objects. A field value is modelled by \<open>pyval\<close>: a
  string, an integer or \<open>None\<close> (JSON null). \<open>py_str\<close> is Python's \<open>str()\<close> on
  such a value.
\<close>

datatype pyval = PStr string | PInt int | PNone

definition digit_char :: "nat \<Rightarrow> char" where
  "digit_char n = ''0123456789'' ! n"

function str_nat :: "nat \<Rightarrow> string" where
  "str_nat n = (if n < 10 then [digit_char n] else str_nat (n div 10) @ [digit_char (n mod 10)])"
  by pat_completeness auto
termination
  by (relation "measure (\<lambda>n. n)") auto

declare str_nat.simps [simp del]

definition str_int :: "int \<Rightarrow> string" where
  "str_int i = (if i < 0 then CHR ''-'' # str_nat (nat (- i)) else str_nat (nat i))"

fun py_str :: "pyval \<Rightarrow> string" where
  "py_str (PStr s) = s"
| "py_str (PInt i) = str_int i"
| "py_str PNone = ''None''"

text \<open>A listing is a dict; \<open>dict_get d k v\<close> is \<open>d.get(k, v)\<close>.\<close>

type_synonym job = "string \<rightharpoonup> pyval"

definition dict_get :: "('k \<rightharpoonup> 'v) \<Rightarrow> 'k \<Rightarrow> 'v \<Rightarrow> 'v" where
  "dict_get d k v = (case d k of None \<Rightarrow> v | Some x \<Rightarrow> x)"

section \<open>Listing store (job\_database.py)\<close>

text \<open>
  The two SQLite tables are lists of rows in insertion order. The type \<open>'d\<close> of a
  date is whatever the clock gives (\<open>datetime.now()\<close> rendered as a string); the
  current date is an argument of each operation that reads the clock.
\<close>

record 'd job_row =
  job_id :: string
  title :: pyval
  company :: pyval
  location :: pyval
  first_seen_date :: 'd
  last_checked_date :: 'd
  is_processed :: bool

record ('t, 'c) run_row =
  run_id :: string
  timestamp :: 't
  search_config :: 'c
  job_count :: int
  new_job_count :: int

record counts =
  new :: nat
  updated :: nat

datatype db_error = IntegrityError | OperationalError

definition get_known_job_ids :: "'d job_row list \<Rightarrow> string set" where
  "get_known_job_ids jobs = set (map job_id jobs)"

text \<open>The body of the loop of \<open>add_jobs_to_database\<close>, for one listing.\<close>

definition add_job :: "'d \<Rightarrow> 'd job_row list \<times> nat \<times> nat \<Rightarrow> job \<Rightarrow> 'd job_row list \<times> nat \<times> nat" where
  "add_job current_date st job =
     (case st of (jobs, new_count, updated_count) \<Rightarrow>
        let jid = py_str (dict_get job ''job_id'' (PStr ''''))
        in if jid = [] then (jobs, new_count, updated_count)
           else if jid \<in> set (map job_id jobs) then
             (map (\<lambda>r. if job_id r = jid then r\<lparr>last_checked_date := current_date\<rparr> else r) jobs,
              new_count, updated_count + 1)
           else
             (jobs @ [\<lparr>job_id = jid,
                       title = dict_get job ''title'' (PStr ''''),
                       company = dict_get job ''company'' (PStr ''''),
                       location = dict_get job ''location'' (PStr ''''),
                       first_seen_date = current_date,
                       last_checked_date = current_date,
                       is_processed = False\<rparr>],
              new_count + 1, updated_count))"

definition add_jobs_to_database :: "'d \<Rightarrow> job list \<Rightarrow> 'd job_row list \<Rightarrow> counts \<times> 'd job_row list" where
  "add_jobs_to_database current_date js jobs =
     (case foldl (add_job current_date) (jobs, 0, 0) js of
        (jobs', new_count, updated_count) \<Rightarrow>
          (\<lparr>new = new_count, updated = updated_count\<rparr>, jobs'))"


definition filter_new_jobs :: "job list \<Rightarrow> 'd job_row list \<Rightarrow> job list" where
  "filter_new_jobs js jobs =
     (let known_job_ids = get_known_job_ids jobs
      in filter (\<lambda>job. py_str (dict_get job ''job_id'' (PStr '''')) \<notin> known_job_ids) js)"

text \<open>
  An SQL INSERT into a table with a primary key: the row is appended, unless a row with
  the same key is there, in which case SQLite raises \<open>IntegrityError\<close> and the table is
  as before.
\<close>

definition sql_insert :: "('r \<Rightarrow> 'k) \<Rightarrow> 'r \<Rightarrow> 'r list \<Rightarrow> (db_error + unit) \<times> 'r list" where
  "sql_insert key row table =
     (if key row \<in> set (map key table) then (Inl IntegrityError, table)
      else (Inr (), table @ [row]))"

text \<open>
  \<open>record_scraping_run\<close> has no handler around its INSERT, so the error is its result.
  The serialisation of the search configuration is not modelled: the row keeps the value.
\<close>

definition record_scraping_run ::
  "'t \<Rightarrow> string \<Rightarrow> 'c \<Rightarrow> int \<Rightarrow> int \<Rightarrow> ('t, 'c) run_row list
     \<Rightarrow> (db_error + unit) \<times> ('t, 'c) run_row list" where
  "record_scraping_run now rid cfg n_jobs n_new scraping_history =
     sql_insert run_id
       \<lparr>run_id = rid, timestamp = now, search_config = cfg,
        job_count = n_jobs, new_job_count = n_new\<rparr> scraping_history"

text \<open>The identifier of a listing, as both the upsert and the filter compute it.\<close>

definition listing_id :: "job \<Rightarrow> string" where
  "listing_id job = py_str (dict_get job ''job_id'' (PStr ''''))"

text \<open>The row a listing is inserted as, given its first-seen and last-checked dates.\<close>

definition row_of :: "job \<Rightarrow> 'd \<Rightarrow> 'd \<Rightarrow> 'd job_row" where
  "row_of job first_seen last_checked =
     \<lparr>job_id = listing_id job,
      title = dict_get job ''title'' (PStr ''''),
      company = dict_get job ''company'' (PStr ''''),
      location = dict_get job ''location'' (PStr ''''),
      first_seen_date = first_seen,
      last_checked_date = last_checked,
      is_processed = False\<rparr>"

text \<open>
  The second run's listings minus the first run's, in the spec's words: the listings
  of \<open>L2\<close> whose identifier does not occur in \<open>L1\<close>.
\<close>

definition unseen_spec :: "job list \<Rightarrow> job list \<Rightarrow> job list" where
  "unseen_spec L1 L2 = filter (\<lambda>job. listing_id job \<notin> listing_id ` set L1) L2"

text \<open>What the code returns: listings without an identifier are never stored, so they stay.\<close>

definition unseen_or_unidentified :: "job list \<Rightarrow> job list \<Rightarrow> job list" where
  "unseen_or_unidentified L1 L2 =
     filter (\<lambda>job. listing_id job = [] \<or> listing_id job \<notin> listing_id ` set L1) L2"




text \<open>Listings used as examples.\<close>

definition listing_without_id :: job where
  "listing_without_id = [''title'' \<mapsto> PStr ''Product Manager'']"

definition listing_a :: job where
  "listing_a = [''job_id'' \<mapsto> PStr ''a1'', ''title'' \<mapsto> PStr ''Director of Product'',
                ''company'' \<mapsto> PStr ''Acme'']"

definition stored_b :: "nat \<Rightarrow> nat \<Rightarrow> nat job_row" where
  "stored_b first_seen last_checked =
     \<lparr>job_id = ''42'', title = PStr ''Chief of Staff'', company = PStr [], location = PStr [],
      first_seen_date = first_seen, last_checked_date = last_checked, is_processed = False\<rparr>"

definition run_1 :: "(nat, string) run_row" where
  "run_1 = \<lparr>run_id = ''run_1'', timestamp = 1, search_config = ''{}'', job_count = 5, new_job_count = 3\<rparr>"

definition listing_b :: job where
  "listing_b = [''job_id'' \<mapsto> PInt 42, ''title'' \<mapsto> PStr ''Chief of Staff'']"


section \<open>Publisher (sheets\_integration.py)\<close>

text \<open>
  The spreadsheet service is not part of the repository: it is the parameter \<open>api\<close>,
  over any type \<open>'s\<close> of remote state and any type \<open>'c\<close> of cell. \<open>service_ok\<close> tells
  whether \<open>create_sheets_service\<close> returns a service; each call returns \<open>None\<close> where
  the Python call raises. A queued update is the pair of its range and its rows.
\<close>

type_synonym 'c update = "string \<times> 'c list list"

record ('s, 'c) sheets_api =
  service_ok :: bool
  values_get :: "string \<Rightarrow> 's \<Rightarrow> 'c list list option"
  values_batch_update :: "'c update list \<Rightarrow> 's \<Rightarrow> 's option"
  values_append :: "string \<Rightarrow> 'c list list \<Rightarrow> 's \<Rightarrow> 's option"

datatype 'c api_call = BatchUpdate "'c update list" | Append string "'c list list"

text \<open>The body of the loop of \<open>get_existing_job_data\<close>, for row \<open>i\<close>.\<close>

definition index_row :: "('c \<rightharpoonup> nat \<times> 'c list) \<Rightarrow> nat \<times> 'c list \<Rightarrow> ('c \<rightharpoonup> nat \<times> 'c list)" where
  "index_row job_data ir =
     (case ir of (i, row) \<Rightarrow>
        if 7 \<le> length row then job_data(row ! 6 \<mapsto> (i, row)) else job_data)"

definition get_existing_job_data ::
  "('s, 'c) sheets_api \<Rightarrow> string \<Rightarrow> 's \<Rightarrow> ('c \<rightharpoonup> nat \<times> 'c list)" where
  "get_existing_job_data api sheet_range s =
     (if \<not> service_ok api then Map.empty
      else case values_get api sheet_range s of
             None \<Rightarrow> Map.empty
           | Some rows \<Rightarrow> foldl index_row Map.empty (enumerate 0 rows))"

text \<open>
  The body of the loop of \<open>append_to_sheet\<close>, for one input row; the state is the pair
  of \<open>filtered_values\<close> and \<open>updates\<close>.
\<close>

definition queue_row ::
  "('c \<rightharpoonup> nat \<times> 'c list) \<Rightarrow> string \<Rightarrow> bool \<Rightarrow> 'c list list \<times> 'c update list \<Rightarrow> 'c list
     \<Rightarrow> 'c list list \<times> 'c update list" where
  "queue_row existing_job_data base_range force_update st row =
     (case st of (filtered_values, updates) \<Rightarrow>
        if 7 \<le> length row then
          (case existing_job_data (row ! 6) of
             Some (i, data) \<Rightarrow>
               if force_update
               then (filtered_values, updates @ [(base_range @ ''!A'' @ str_nat (i + 2), [row])])
               else (filtered_values, updates)
           | None \<Rightarrow> (filtered_values @ [row], updates))
        else (filtered_values, updates))"

definition append_new ::
  "('s, 'c) sheets_api \<Rightarrow> string \<Rightarrow> 'c list list \<Rightarrow> 'c api_call list \<Rightarrow> 's
     \<Rightarrow> bool \<times> 'c api_call list \<times> 's" where
  "append_new api sheet_range filtered_values calls s =
     (if filtered_values \<noteq> [] then
        (case values_append api sheet_range filtered_values s of
           None \<Rightarrow> (False, calls @ [Append sheet_range filtered_values], s)
         | Some s' \<Rightarrow> (True, calls @ [Append sheet_range filtered_values], s'))
      else (True, calls, s))"

text \<open>
  \<open>append_to_sheet\<close> returns its boolean, the calls it issued to the service (the last
  one raised when the boolean is \<open>False\<close>) and the remote state it leaves.
\<close>

definition append_to_sheet ::
  "('s, 'c) sheets_api \<Rightarrow> string \<Rightarrow> 'c list list \<Rightarrow> bool \<Rightarrow> 's
     \<Rightarrow> bool \<times> 'c api_call list \<times> 's" where
  "append_to_sheet api sheet_range rows force_update s =
     (if rows = [] then (True, [], s)
      else if \<not> service_ok api then (False, [], s)
      else
        let existing_job_data = get_existing_job_data api sheet_range s;
            base_range = takeWhile (\<lambda>c. c \<noteq> CHR ''!'') sheet_range
        in case foldl (queue_row existing_job_data base_range force_update) ([], []) rows of
             (filtered_values, updates) \<Rightarrow>
               if force_update \<and> updates \<noteq> [] then
                 (case values_batch_update api updates s of
                    None \<Rightarrow> (False, [BatchUpdate updates], s)
                  | Some s' \<Rightarrow> append_new api sheet_range filtered_values [BatchUpdate updates] s')
               else append_new api sheet_range filtered_values [] s)"

text \<open>An input row that carries a key: it is one of \<open>rows\<close> and has at least 7 cells.\<close>

definition long_row :: "'c list list \<Rightarrow> 'c list \<Rightarrow> bool" where
  "long_row rows row \<longleftrightarrow> row \<in> set rows \<and> 7 \<le> length row"

text \<open>The rows a call carries to the service.\<close>

fun rows_sent :: "'c api_call \<Rightarrow> 'c list list" where
  "rows_sent (BatchUpdate updates) = concat (map snd updates)"
| "rows_sent (Append r rows) = rows"

text \<open>
  A service used in the examples: the remote state is the list of data rows, an update
  is ignored and an append adds the rows at the end.
\<close>

definition list_api :: "(string list list, string) sheets_api" where
  "list_api = \<lparr>service_ok = True,
               values_get = (\<lambda>r s. Some s),
               values_batch_update = (\<lambda>us s. Some s),
               values_append = (\<lambda>r rows s. Some (s @ rows))\<rparr>"

definition remote_rows :: "string list list" where
  "remote_rows =
     [[''t1'', ''Director'', ''Acme'', ''8.0'', ''good'', ''PURSUE'', ''k1''],
      [''t2'', ''Manager'', ''Initech''],
      [''t3'', ''Lead'', ''Globex'', ''7.5'', ''fair'', ''CONSIDER'', ''k2'', ''u2'']]"

text \<open>
  Two services that fail: one for which \<open>create_sheets_service\<close> returns no service,
  and one whose read of the remote rows raises while its other calls work.
\<close>

definition no_service_api :: "(string list list, string) sheets_api" where
  "no_service_api = list_api\<lparr>service_ok := False\<rparr>"

definition failed_read_api :: "(string list list, string) sheets_api" where
  "failed_read_api = list_api\<lparr>values_get := (\<lambda>r s. None)\<rparr>"

text \<open>Input rows whose keys \<open>k1\<close> and \<open>k2\<close> are both carried by \<open>remote_rows\<close>.\<close>

definition present_rows :: "string list list" where
  "present_rows =
     [[''t9'', ''Director'', ''Acme'', ''8.5'', ''better'', ''PURSUE'', ''k1''],
      [''t9'', ''Lead'', ''Globex'', ''7.0'', ''fair'', ''CONSIDER'', ''k2'']]"

text \<open>
  The condition of the spec, on the remote data itself: every input row has a key, and a
  remote row carries that key at index 6.
\<close>

definition keys_present_remotely :: "'c list list \<Rightarrow> 'c list list \<Rightarrow> bool" where
  "keys_present_remotely rows remote \<longleftrightarrow>
     list_all (\<lambda>row. 7 \<le> length row \<and>
                      row ! 6 \<in> set (map (\<lambda>r. r ! 6) (filter (\<lambda>r. 7 \<le> length r) remote)))
              rows"

section \<open>Ordering of the analysis results (llm\_analyzer.py)\<close>

text \<open>
  An analysis result carries its listing's identifier and its match score; the other
  entries of the dict are the extension of the record. A score is the number the float
  denotes.
\<close>

record analysis_result =
  result_job_id :: string
  match_score :: real

text \<open>
  \<open>list.sort(key=..., reverse=True)\<close>: Python reverses the list, sorts it stably in
  ascending order and reverses it again, so equal keys keep their order.
\<close>

definition sort_reverse :: "('a \<Rightarrow> 'k::linorder) \<Rightarrow> 'a list \<Rightarrow> 'a list" where
  "sort_reverse key xs = rev (sort_key key (rev xs))"

text \<open>
  The tasks of \<open>analyze_jobs_batch\<close> run concurrently and their outcomes are collected
  as they complete. \<open>outcomes\<close> is the list of the outcomes in the order of collection,
  \<open>None\<close> for a task that gave no result; \<open>cv_ok\<close> tells whether the CV was parsed.
\<close>

text \<open>The collecting loop: an outcome is appended to \<open>results\<close> unless it is \<open>None\<close>.\<close>

definition collect_result :: "'r list \<Rightarrow> 'r option \<Rightarrow> 'r list" where
  "collect_result results result = (case result of None \<Rightarrow> results | Some r \<Rightarrow> results @ [r])"

definition collect_results :: "'r option list \<Rightarrow> 'r list" where
  "collect_results outcomes = foldl collect_result [] outcomes"

definition analyze_jobs_batch ::
  "bool \<Rightarrow> 'a analysis_result_scheme option list \<Rightarrow> 'a analysis_result_scheme list" where
  "analyze_jobs_batch cv_ok outcomes =
     (if \<not> cv_ok then []
      else let results = collect_results outcomes
           in sort_reverse match_score results)"

definition descending :: "'a analysis_result_scheme list \<Rightarrow> bool" where
  "descending rs \<longleftrightarrow> sorted_wrt (\<lambda>a b. match_score b \<le> match_score a) rs"

definition example_outcomes :: "analysis_result option list" where
  "example_outcomes =
     [Some \<lparr>result_job_id = ''j1'', match_score = 6\<rparr>, None,
      Some \<lparr>result_job_id = ''j2'', match_score = 9\<rparr>,
      Some \<lparr>result_job_id = ''j3'', match_score = 6\<rparr>]"

section \<open>Response extractor (llm\_analyzer.py)\<close>

text \<open>
  A text is an Isabelle string whose characters are the code points below 256. The
  character classes are Python's on these code points: \<open>is_space\<close> is the whitespace of
  \<open>\s\<close> and of \<open>str.strip\<close>, \<open>is_digit\<close> is \<open>\d\<close>. \<open>upper_char\<close> is \<open>str.upper\<close> on
  one character, whose result can be two characters; the upper-case forms of the code
  points 181 and 255 lie beyond 255 and are not letters of any keyword, and the model
  leaves these two characters as they are.
\<close>

definition is_space :: "char \<Rightarrow> bool" where
  "is_space c =
     (let n = (of_char c :: nat)
      in (9 \<le> n \<and> n \<le> 13) \<or> (28 \<le> n \<and> n \<le> 32) \<or> n = 133 \<or> n = 160)"

definition is_digit :: "char \<Rightarrow> bool" where
  "is_digit c = (let n = (of_char c :: nat) in 48 \<le> n \<and> n \<le> 57)"

definition upper_char :: "char \<Rightarrow> string" where
  "upper_char c =
     (let n = (of_char c :: nat)
      in if 97 \<le> n \<and> n \<le> 122 then [char_of (n - 32)]
         else if n = 223 then ''SS''
         else if 224 \<le> n \<and> n \<le> 254 \<and> n \<noteq> 247 then [char_of (n - 32)]
         else [c])"

definition py_upper :: "string \<Rightarrow> string" where
  "py_upper s = concat (map upper_char s)"

definition py_strip :: "string \<Rightarrow> string" where
  "py_strip s = rev (dropWhile is_space (rev (dropWhile is_space s)))"

subsection \<open>Regular expressions\<close>

text \<open>
  The part of Python's \<open>re\<close> that the extractor uses: literal characters, the classes
  \<open>.\<close> (under \<open>DOTALL\<close>), \<open>\d\<close> and \<open>\s\<close> under the greedy \<open>*\<close> and \<open>+\<close> and
  the lazy \<open>+?\<close>, and a greedy optional group. \<open>alts r s\<close> lists, in the order in
  which the backtracking matcher tries them, the rests of \<open>s\<close> that matching \<open>r\<close> at the
  start of \<open>s\<close> can leave: a greedy repetition tries the longest run first, a lazy one
  the shortest, an optional group its body first.
\<close>

datatype cclass = AnyChar | Digit | Space

fun in_class :: "cclass \<Rightarrow> char \<Rightarrow> bool" where
  "in_class AnyChar c = True"
| "in_class Digit c = is_digit c"
| "in_class Space c = is_space c"

datatype regex = Chr char | Star cclass | Plus cclass | PlusLazy cclass | Opt "regex list"

definition run :: "cclass \<Rightarrow> string \<Rightarrow> nat" where
  "run c s = length (takeWhile (in_class c) s)"

fun alts :: "regex \<Rightarrow> string \<Rightarrow> string list"
  and alts_seq :: "regex list \<Rightarrow> string \<Rightarrow> string list" where
  "alts (Chr c) s = (case s of [] \<Rightarrow> [] | x # xs \<Rightarrow> if x = c then [xs] else [])"
| "alts (Star c) s = map (\<lambda>n. drop n s) (rev [0..<Suc (run c s)])"
| "alts (Plus c) s = map (\<lambda>n. drop n s) (rev [1..<Suc (run c s)])"
| "alts (PlusLazy c) s = map (\<lambda>n. drop n s) [1..<Suc (run c s)]"
| "alts (Opt rs) s = alts_seq rs s @ [s]"
| "alts_seq [] s = [s]"
| "alts_seq (r # rs) s = concat (map (alts_seq rs) (alts r s))"

text \<open>
  Each pattern of the extractor is a prefix, one capturing group and a suffix.
  \<open>match_here\<close> lists the texts the group captures in the matches that start at the
  start of \<open>s\<close>, in the matcher's order; \<open>re_search\<close> is \<open>re.search\<close> followed by
  \<open>group(1)\<close>: the first match at the leftmost position that has one, \<open>None\<close> when no
  position has one.
\<close>

datatype pattern = Pattern "regex list" "regex list" "regex list"

fun match_here :: "pattern \<Rightarrow> string \<Rightarrow> string list" where
  "match_here (Pattern pre grp post) s =
     concat (map (\<lambda>s1. concat (map (\<lambda>s2. map (\<lambda>s3. take (length s1 - length s2) s1)
                                               (alts_seq post s2))
                                  (alts_seq grp s1)))
                 (alts_seq pre s))"

fun re_search :: "pattern \<Rightarrow> string \<Rightarrow> string option" where
  "re_search p [] = (case match_here p [] of [] \<Rightarrow> None | g # _ \<Rightarrow> Some g)"
| "re_search p (x # xs) =
     (case match_here p (x # xs) of [] \<Rightarrow> re_search p xs | g # _ \<Rightarrow> Some g)"

definition lit :: "string \<Rightarrow> regex list" where
  "lit s = map Chr s"

text \<open>The numeral \<^verbatim>\<open>\d+(?:\.\d+)?\<close>.\<close>

definition number :: "regex list" where
  "number = [Plus Digit, Opt [Chr (CHR ''.''), Plus Digit]]"

text \<open>\<^verbatim>\<open><score>(\d+(?:\.\d+)?)</score>\<close>\<close>

definition score_pattern :: pattern where
  "score_pattern = Pattern (lit ''<score>'') number (lit ''</score>'')"

text \<open>\<^verbatim>\<open><tag>\s*(.+?)\s*</tag>\<close> with \<open>re.DOTALL\<close>.\<close>

definition section_pattern :: "string \<Rightarrow> pattern" where
  "section_pattern tag =
     Pattern (lit (''<'' @ tag @ ''>'') @ [Star Space]) [PlusLazy AnyChar]
             ([Star Space] @ lit (''</'' @ tag @ ''>''))"

text \<open>\<^verbatim>\<open>(\d+(?:\.\d+)?)\<close>\<close>

definition number_pattern :: pattern where
  "number_pattern = Pattern [] number []"

subsection \<open>Numbers\<close>

text \<open>
  A float is modelled by the real number it denotes; rounding to binary64 is not
  modelled. \<open>py_float\<close> is \<open>float()\<close> on the numerals the extractor passes to it, digits
  with an optional fraction; \<open>None\<close> is \<open>ValueError\<close>, which is what the model gives for
  every other string (Python accepts more forms, which no pattern here captures).
\<close>

definition digit_value :: "char \<Rightarrow> nat" where
  "digit_value c = of_char c - 48"

definition nat_of_digits :: "string \<Rightarrow> nat" where
  "nat_of_digits ds = foldl (\<lambda>n c. 10 * n + digit_value c) 0 ds"

definition py_float :: "string \<Rightarrow> real option" where
  "py_float s =
     (let whole = takeWhile is_digit s; rest = dropWhile is_digit s
      in if whole = [] then None
         else case rest of
                [] \<Rightarrow> Some (real (nat_of_digits whole))
              | c # decimals \<Rightarrow>
                  if c = CHR ''.'' \<and> decimals \<noteq> [] \<and> list_all is_digit decimals
                  then Some (real (nat_of_digits whole)
                             + real (nat_of_digits decimals) / 10 ^ length decimals)
                  else None)"

subsection \<open>The extraction\<close>

text \<open>
  \<open>sections\<close> is the dict the function fills: a key is bound to a number or to a text.
  Each block of the function is a definition that takes the dict and returns it updated;
  the blocks for \<open>human_fit\<close> and \<open>ats_fit\<close> differ in the tag only and are
  \<open>extract_fit\<close>, the six blocks that store a stripped text are \<open>extract_text\<close>.
\<close>

datatype field = Number real | Text string

type_synonym sections = "string \<rightharpoonup> field"

definition extract_score :: "string \<Rightarrow> sections \<Rightarrow> sections" where
  "extract_score response_text sections =
     (case re_search score_pattern response_text of
        Some g \<Rightarrow>
          (case py_float g of
             Some score \<Rightarrow> sections(''score'' \<mapsto> Number score)
           | None \<Rightarrow> sections(''score'' \<mapsto> Number 0))
      | None \<Rightarrow> sections(''score'' \<mapsto> Number 0))"

definition extract_fit :: "string \<Rightarrow> string \<Rightarrow> sections \<Rightarrow> sections" where
  "extract_fit tag response_text sections =
     (case re_search (section_pattern tag) response_text of
        Some g \<Rightarrow>
          let content = py_strip g;
              sections =
                (case re_search number_pattern content of
                   Some n \<Rightarrow>
                     (case py_float n of
                        Some v \<Rightarrow> sections(tag \<mapsto> Number v)
                      | None \<Rightarrow> sections(tag \<mapsto> Number 0))
                 | None \<Rightarrow> sections(tag \<mapsto> Number 0))
          in sections(tag @ ''_text'' \<mapsto> Text content)
      | None \<Rightarrow> (sections(tag \<mapsto> Number 0))(tag @ ''_text'' \<mapsto> Text []))"

definition extract_text :: "string \<Rightarrow> string \<Rightarrow> sections \<Rightarrow> sections" where
  "extract_text tag response_text sections =
     (case re_search (section_pattern tag) response_text of
        Some g \<Rightarrow> sections(tag \<mapsto> Text (py_strip g))
      | None \<Rightarrow> sections(tag \<mapsto> Text []))"

text \<open>The chain of tests that derives the recommendation code from the stripped text.\<close>

definition recommendation_code :: "string \<Rightarrow> string" where
  "recommendation_code recommendation_text =
     (if prefix ''PURSUE'' (py_upper recommendation_text) then ''PURSUE''
      else if prefix ''CONSIDER'' (py_upper recommendation_text) then ''CONSIDER''
      else if prefix ''AVOID'' (py_upper recommendation_text) then ''AVOID''
      else if sublist ''PURSUE'' (py_upper recommendation_text) then ''PURSUE''
      else if sublist ''CONSIDER'' (py_upper recommendation_text) then ''CONSIDER''
      else if sublist ''AVOID'' (py_upper recommendation_text) then ''AVOID''
      else ''REVIEW'')"

definition extract_recommendation :: "string \<Rightarrow> sections \<Rightarrow> sections" where
  "extract_recommendation response_text sections =
     (case re_search (section_pattern ''recommendation'') response_text of
        Some g \<Rightarrow>
          let recommendation_text = py_strip g;
              sections = sections(''recommendation'' \<mapsto> Text recommendation_text)
          in sections(''recommendation_code'' \<mapsto> Text (recommendation_code recommendation_text))
      | None \<Rightarrow>
          (sections(''recommendation'' \<mapsto> Text []))(''recommendation_code'' \<mapsto> Text ''REVIEW''))"

definition extract_response_sections :: "string \<Rightarrow> sections" where
  "extract_response_sections response_text =
     (let sections = Map.empty;
          sections = extract_score response_text sections;
          sections = extract_fit ''human_fit'' response_text sections;
          sections = extract_fit ''ats_fit'' response_text sections;
          sections = extract_text ''key_strengths'' response_text sections;
          sections = extract_text ''critical_gaps'' response_text sections;
          sections = extract_text ''cv_tailoring'' response_text sections;
          sections = extract_text ''experience_positioning'' response_text sections;
          sections = extract_text ''talking_points'' response_text sections;
          sections = extract_recommendation response_text sections;
          sections = extract_text ''summary'' response_text sections
      in sections)"

subsection \<open>The value a block stores, as a function of the result of its search\<close>

definition score_of :: "string option \<Rightarrow> real" where
  "score_of m = (case m of Some g \<Rightarrow> (case py_float g of Some v \<Rightarrow> v | None \<Rightarrow> 0) | None \<Rightarrow> 0)"

definition number_in :: "string \<Rightarrow> real" where
  "number_in content =
     (case re_search number_pattern content of
        Some n \<Rightarrow> (case py_float n of Some v \<Rightarrow> v | None \<Rightarrow> 0)
      | None \<Rightarrow> 0)"

definition fit_of :: "string option \<Rightarrow> real" where
  "fit_of m = (case m of Some g \<Rightarrow> number_in (py_strip g) | None \<Rightarrow> 0)"

definition text_of :: "string option \<Rightarrow> string" where
  "text_of m = (case m of Some g \<Rightarrow> py_strip g | None \<Rightarrow> [])"

definition code_of :: "string option \<Rightarrow> string" where
  "code_of m = (case m of Some g \<Rightarrow> recommendation_code (py_strip g) | None \<Rightarrow> ''REVIEW'')"

subsection \<open>What the spec says of the extraction\<close>

text \<open>The keys of a complete record: three numbers, nine texts and the code.\<close>

definition numeric_keys :: "string list" where
  "numeric_keys = [''score'', ''human_fit'', ''ats_fit'']"

definition text_keys :: "string list" where
  "text_keys = [''human_fit_text'', ''ats_fit_text'', ''key_strengths'', ''critical_gaps'',
     ''cv_tailoring'', ''experience_positioning'', ''talking_points'', ''recommendation'',
     ''summary'']"






definition response_priority :: string where
  "response_priority =
     ''<score>7.5</score><recommendation> Do avoid, or consider later </recommendation>''"



section \<open>The listing store: identifiers\<close>

lemma str_nat_nonempty: "str_nat n \<noteq> []"
  by (subst str_nat.simps) simp

lemma ids_touch:
  "map job_id (map (\<lambda>r. if P r then r\<lparr>last_checked_date := d\<rparr> else r) jobs) = map job_id jobs"
  by (induction jobs) auto

lemma add_job_fst:
  "fst (add_job d (jobs, n, u) j) =
     (if listing_id j = [] then jobs
      else if listing_id j \<in> set (map job_id jobs)
        then map (\<lambda>r. if job_id r = listing_id j then r\<lparr>last_checked_date := d\<rparr> else r) jobs
        else jobs @ [row_of j d d])"
  by (simp add: add_job_def listing_id_def row_of_def Let_def)

lemma add_job_ids:
  "set (map job_id (fst (add_job d st j))) =
     set (map job_id (fst st)) \<union> (if listing_id j = [] then {} else {listing_id j})"
proof (cases st)
  case (fields jobs n u)
  have "job_id (row_of j d d) = listing_id j"
    by (simp add: row_of_def)
  then show ?thesis
    unfolding fields add_job_fst fst_conv
    by (auto simp only: ids_touch set_map [symmetric] map_append list.map set_append list.set
        split: if_splits)
qed

lemma foldl_add_job_ids:
  "set (map job_id (fst (foldl (add_job d) st js))) =
     set (map job_id (fst st)) \<union> {listing_id j | j. j \<in> set js \<and> listing_id j \<noteq> []}"
proof (induction js arbitrary: st)
  case Nil
  then show ?case by simp
next
  case (Cons j js)
  show ?case
    unfolding foldl_Cons Cons.IH add_job_ids by auto
qed

lemma snd_add_jobs:
  "snd (add_jobs_to_database d js jobs) = fst (foldl (add_job d) (jobs, 0, 0) js)"
  by (simp add: add_jobs_to_database_def split: prod.splits)

lemma known_after_add:
  "get_known_job_ids (snd (add_jobs_to_database d js jobs)) =
     get_known_job_ids jobs \<union> {listing_id j | j. j \<in> set js \<and> listing_id j \<noteq> []}"
  using foldl_add_job_ids [of d "(jobs, 0, 0)" js]
  by (simp add: snd_add_jobs get_known_job_ids_def)

lemma example_ids:
  "listing_id listing_without_id = []" "listing_id listing_a = ''a1''" "listing_id listing_b = ''42''"
  by (simp_all add: listing_id_def dict_get_def listing_without_id_def listing_a_def listing_b_def
      str_int_def str_nat.simps digit_char_def)

lemma row_of_listing_b: "row_of listing_b a b = stored_b a b"
  unfolding row_of_def example_ids stored_b_def by (simp add: dict_get_def listing_b_def)

text \<open>
  C1, as the code has it. After the listings \<open>L1\<close> are added to an empty store, the
  filter keeps of \<open>L2\<close>, in order, the listings whose identifier is empty (the
  \<open>job_id\<close> entry is missing or empty: such a listing is never stored) or does not
  occur in \<open>L1\<close>. This holds for all \<open>L1\<close> and \<open>L2\<close>, so also when \<open>L1\<close> is part of \<open>L2\<close>.
\<close>

theorem filter_new_jobs_after_add:
  "filter_new_jobs L2 (snd (add_jobs_to_database d L1 [])) = unseen_or_unidentified L1 L2"
  unfolding filter_new_jobs_def Let_def known_after_add unseen_or_unidentified_def
  by (rule filter_cong) (auto simp: listing_id_def get_known_job_ids_def)

theorem filter_new_jobs_after_add_witness:
  "filter_new_jobs [listing_without_id, listing_a, listing_b]
       (snd (add_jobs_to_database (0::nat) [listing_without_id, listing_a] []))
     = [listing_without_id, listing_b]"
  using filter_new_jobs_after_add
    [of "[listing_without_id, listing_a, listing_b]" "0::nat" "[listing_without_id, listing_a]"]
  by (simp add: unseen_or_unidentified_def example_ids)

text \<open>
  C1 as stated fails: a listing without \<open>job_id\<close> that was in the first run is returned
  again by the filter, although its (empty) identifier occurs in the first run.
\<close>

theorem filter_new_jobs_counterexample:
  "set [listing_without_id] \<subseteq> set [listing_without_id, listing_a] \<and>
   filter_new_jobs [listing_without_id, listing_a]
       (snd (add_jobs_to_database (0::nat) [listing_without_id] []))
     \<noteq> unseen_spec [listing_without_id] [listing_without_id, listing_a]"
  by (simp add: filter_new_jobs_def add_jobs_to_database_def add_job_def unseen_spec_def
      listing_id_def [symmetric] example_ids get_known_job_ids_def)

text \<open>
  C2. For a listing with a non-empty identifier and an empty store, the upsert returns
  new = 1 and updated = 0 and stores the row with first-seen = last-checked = the current
  date; a second upsert of the same listing, at any date, returns new = 0 and
  updated = 1 and changes the last-checked date only.
\<close>

theorem add_jobs_twice:
  assumes "listing_id j \<noteq> []"
  shows "add_jobs_to_database d1 [j] [] = (\<lparr>new = 1, updated = 0\<rparr>, [row_of j d1 d1]) \<and>
         add_jobs_to_database d2 [j] [row_of j d1 d1] = (\<lparr>new = 0, updated = 1\<rparr>, [row_of j d1 d2])"
  using assms
  by (simp add: add_jobs_to_database_def add_job_def row_of_def listing_id_def Let_def)

theorem add_jobs_twice_witness:
  "listing_id listing_b \<noteq> [] \<and>
   add_jobs_to_database (5::nat) [listing_b] [] = (\<lparr>new = 1, updated = 0\<rparr>, [stored_b 5 5]) \<and>
   add_jobs_to_database (9::nat) [listing_b] [stored_b 5 5] = (\<lparr>new = 0, updated = 1\<rparr>, [stored_b 5 9])"
proof -
  have ne: "listing_id listing_b \<noteq> []"
    by (simp add: example_ids)
  show ?thesis
    using ne add_jobs_twice [OF ne, of "5::nat" "9::nat"] unfolding row_of_listing_b by simp
qed

section \<open>The listing store: invariant\<close>















section \<open>The run history\<close>

text \<open>
  C9. With a fresh run identifier, \<open>record_scraping_run\<close> appends exactly one row, the
  one built from its arguments; with an identifier that a row already has, it fails with
  the integrity error of the primary key and the table is as before. In both cases the
  rows that were there are still there, unchanged and in place.
\<close>

theorem record_scraping_run_unique:
  "(rid \<notin> set (map run_id h) \<longrightarrow>
      record_scraping_run now rid cfg a b h =
        (Inr (), h @ [\<lparr>run_id = rid, timestamp = now, search_config = cfg,
                       job_count = a, new_job_count = b\<rparr>])) \<and>
   (rid \<in> set (map run_id h) \<longrightarrow> record_scraping_run now rid cfg a b h = (Inl IntegrityError, h)) \<and>
   take (length h) (snd (record_scraping_run now rid cfg a b h)) = h"
  by (simp add: record_scraping_run_def sql_insert_def)

theorem record_scraping_run_unique_witness:
  "record_scraping_run (2::nat) ''run_2'' ''{}'' 4 0 [run_1] =
     (Inr (), [run_1, \<lparr>run_id = ''run_2'', timestamp = 2, search_config = ''{}'',
                       job_count = 4, new_job_count = 0\<rparr>]) \<and>
   record_scraping_run (2::nat) ''run_1'' ''{}'' 4 0 [run_1] = (Inl IntegrityError, [run_1])"
proof -
  have ids: "map run_id [run_1] = [''run_1'']"
    by (simp add: run_1_def)
  from record_scraping_run_unique [of "''run_2''" "[run_1]" "2::nat" "''{}''" 4 0]
    record_scraping_run_unique [of "''run_1''" "[run_1]" "2::nat" "''{}''" 4 0]
  show ?thesis unfolding ids by simp
qed

section \<open>The publisher\<close>

lemma foldl_index_row_dom:
  "dom (foldl index_row m irs) = dom m \<union> {snd ir ! 6 | ir. ir \<in> set irs \<and> 7 \<le> length (snd ir)}"
  by (induction irs arbitrary: m) (auto simp: index_row_def split: prod.splits)

lemma existing_keys:
  assumes "service_ok api" "values_get api sheet_range s = Some remote"
  shows "dom (get_existing_job_data api sheet_range s) = {r ! 6 | r. r \<in> set remote \<and> 7 \<le> length r}"
proof -
  have "{snd ir ! 6 | ir. ir \<in> set (enumerate 0 remote) \<and> 7 \<le> length (snd ir)} =
        {r ! 6 | r. r \<in> set remote \<and> 7 \<le> length r}"
  proof -
    have "snd ` set (enumerate 0 remote) = set remote"
      by (metis map_snd_enumerate set_map)
    then show ?thesis by force
  qed
  with assms show ?thesis
    by (simp add: get_existing_job_data_def foldl_index_row_dom)
qed

lemma queue_row_cases:
  "queue_row ex base force (fv, ups) row =
     (if 7 \<le> length row then
        (case ex (row ! 6) of
           Some (i, data) \<Rightarrow>
             if force then (fv, ups @ [(base @ ''!A'' @ str_nat (i + 2), [row])]) else (fv, ups)
         | None \<Rightarrow> (fv @ [row], ups))
      else (fv, ups))"
  by (simp add: queue_row_def)

lemma foldl_queue_row_skip:
  assumes "\<forall>row\<in>set rows. length row < 7 \<or> (\<not> force \<and> row ! 6 \<in> dom ex)"
  shows "foldl (queue_row ex base force) st rows = st"
  using assms
  by (induction rows arbitrary: st) (auto simp: queue_row_def split: prod.splits option.splits)

lemma foldl_queue_row_filter:
  "foldl (queue_row ex base force) st (filter (\<lambda>row. 7 \<le> length row) rows) =
   foldl (queue_row ex base force) st rows"
  by (induction rows arbitrary: st) (auto simp: queue_row_def split: prod.splits option.splits)

lemma queue_row_sent:
  assumes "queue_row ex base force (fv0, ups0) row = (fv1, ups1)"
  shows "(\<forall>r\<in>set fv1. r \<in> set fv0 \<or> (r = row \<and> 7 \<le> length row)) \<and>
         (\<forall>u\<in>set ups1. u \<in> set ups0 \<or> (snd u = [row] \<and> 7 \<le> length row))"
  using assms by (auto simp: queue_row_cases split: if_splits option.splits)

lemma foldl_queue_row_sent:
  assumes "foldl (queue_row ex base force) (fv0, ups0) rows = (fv, ups)"
  shows "(\<forall>r\<in>set fv. r \<in> set fv0 \<or> long_row rows r) \<and>
         (\<forall>u\<in>set ups. u \<in> set ups0 \<or> (\<exists>r. snd u = [r] \<and> long_row rows r))"
  using assms
proof (induction rows arbitrary: fv0 ups0)
  case Nil
  then show ?case by simp
next
  case (Cons row rows)
  obtain fv1 ups1 where step: "queue_row ex base force (fv0, ups0) row = (fv1, ups1)"
    by (cases "queue_row ex base force (fv0, ups0) row")
  with Cons.prems have "foldl (queue_row ex base force) (fv1, ups1) rows = (fv, ups)"
    by simp
  from Cons.IH [OF this] queue_row_sent [OF step] show ?case
    unfolding long_row_def by (simp only: list.set Ball_def) blast
qed

lemma append_new_calls:
  "set (fst (snd (append_new api r fv calls s))) \<subseteq> set calls \<union> {Append r fv}"
  by (auto simp: append_new_def split: option.splits)

text \<open>
  C7, as the code has it. Let the service be available and the read of the remote rows
  succeed. If \<open>force_update\<close> is false and every input row has a key (at least 7 cells)
  that a row read from the remote carries at index 6, then \<open>append_to_sheet\<close> returns
  true, issues no update and no append, and leaves the remote state as it was. With no
  input row at all it returns true, issues no call and leaves the remote state as it
  was, whatever the service does.
\<close>

theorem append_to_sheet_all_existing:
  "(service_ok api \<and> values_get api sheet_range s = Some remote \<and>
    (\<forall>row\<in>set rows. 7 \<le> length row \<and> (\<exists>r\<in>set remote. 7 \<le> length r \<and> r ! 6 = row ! 6))
      \<longrightarrow> append_to_sheet api sheet_range rows False s = (True, [], s)) \<and>
   append_to_sheet api sheet_range [] force_update s = (True, [], s)"
proof (intro conjI impI)
  assume a: "service_ok api \<and> values_get api sheet_range s = Some remote \<and>
    (\<forall>row\<in>set rows. 7 \<le> length row \<and> (\<exists>r\<in>set remote. 7 \<le> length r \<and> r ! 6 = row ! 6))"
  then have keys: "k \<in> dom (get_existing_job_data api sheet_range s) \<longleftrightarrow>
      (\<exists>r\<in>set remote. 7 \<le> length r \<and> r ! 6 = k)" for k
    by (auto simp: existing_keys)
  have "\<forall>row\<in>set rows. length row < 7 \<or>
      (\<not> False \<and> row ! 6 \<in> dom (get_existing_job_data api sheet_range s))"
    unfolding keys using a by simp
  then have "foldl (queue_row (get_existing_job_data api sheet_range s) base False) ([], []) rows
      = ([], [])" for base
    by (rule foldl_queue_row_skip)
  with a show "append_to_sheet api sheet_range rows False s = (True, [], s)"
    by (simp add: append_to_sheet_def append_new_def)
next
  show "append_to_sheet api sheet_range [] force_update s = (True, [], s)"
    by (simp add: append_to_sheet_def)
qed

theorem append_to_sheet_all_existing_witness:
  "append_to_sheet list_api ''Job Matches!A2:G''
      [[''t9'', ''Director'', ''Acme'', ''8.5'', ''better'', ''PURSUE'', ''k1''],
       [''t9'', ''Lead'', ''Globex'', ''7.0'', ''fair'', ''CONSIDER'', ''k2'']] False remote_rows
     = (True, [], remote_rows)"
proof -
  have "service_ok list_api \<and>
    values_get list_api ''Job Matches!A2:G'' remote_rows = Some remote_rows \<and>
    (\<forall>row\<in>set [[''t9'', ''Director'', ''Acme'', ''8.5'', ''better'', ''PURSUE'', ''k1''],
       [''t9'', ''Lead'', ''Globex'', ''7.0'', ''fair'', ''CONSIDER'', ''k2'']].
         7 \<le> length row \<and> (\<exists>r\<in>set remote_rows. 7 \<le> length r \<and> r ! 6 = row ! 6))"
    by (simp add: list_api_def remote_rows_def)
  with append_to_sheet_all_existing [of list_api "''Job Matches!A2:G''" remote_rows remote_rows
      "[[''t9'', ''Director'', ''Acme'', ''8.5'', ''better'', ''PURSUE'', ''k1''],
       [''t9'', ''Lead'', ''Globex'', ''7.0'', ''fair'', ''CONSIDER'', ''k2'']]"]
  show ?thesis by blast
qed

text \<open>
  C7 as stated fails, for every call is too much. With all input keys present remotely
  and \<open>force_update\<close> false: when no service can be created the call returns false;
  and when the read of the remote rows raises, \<open>get_existing_job_data\<close> catches the
  error and reports no existing row, so the call appends the rows again, changes the
  remote data and returns true.
\<close>

theorem append_to_sheet_counterexample:
  "keys_present_remotely present_rows remote_rows \<and>
   append_to_sheet no_service_api ''Job Matches!A2:G'' present_rows False remote_rows
     = (False, [], remote_rows) \<and>
   append_to_sheet failed_read_api ''Job Matches!A2:G'' present_rows False remote_rows
     = (True, [Append ''Job Matches!A2:G'' present_rows], remote_rows @ present_rows) \<and>
   append_to_sheet no_service_api ''Job Matches!A2:G'' present_rows False remote_rows
     \<noteq> (True, [], remote_rows) \<and>
   append_to_sheet failed_read_api ''Job Matches!A2:G'' present_rows False remote_rows
     \<noteq> (True, [], remote_rows)"
  by code_simp

text \<open>
  C10. For every call of \<open>append_to_sheet\<close>, under both values of \<open>force_update\<close> and
  whatever the service does: every row that an issued update or append carries is an
  input row with at least 7 cells; when the service is available and all input rows are
  shorter, the call returns true and issues no call; when some input row is long enough,
  the call does exactly what it does on the input without its short rows. And when the
  remote rows are read, the existing keys are the cells at index 6 of the remote rows
  with at least 7 cells: a shorter remote row gives no key.
\<close>

theorem append_to_sheet_short_rows:
  "(\<forall>call\<in>set (fst (snd (append_to_sheet api sheet_range rows force_update s))).
      \<forall>row\<in>set (rows_sent call). row \<in> set rows \<and> 7 \<le> length row) \<and>
   (service_ok api \<and> rows \<noteq> [] \<and> (\<forall>row\<in>set rows. length row < 7)
      \<longrightarrow> append_to_sheet api sheet_range rows force_update s = (True, [], s)) \<and>
   (filter (\<lambda>row. 7 \<le> length row) rows \<noteq> []
      \<longrightarrow> append_to_sheet api sheet_range rows force_update s =
          append_to_sheet api sheet_range (filter (\<lambda>row. 7 \<le> length row) rows) force_update s) \<and>
   (service_ok api \<and> values_get api sheet_range s = Some remote
      \<longrightarrow> dom (get_existing_job_data api sheet_range s) =
            {r ! 6 | r. r \<in> set (filter (\<lambda>row. 7 \<le> length row) remote)})"
proof (intro conjI impI)
  let ?ex = "get_existing_job_data api sheet_range s"
  let ?base = "takeWhile (\<lambda>c. c \<noteq> CHR ''!'') sheet_range"
  obtain fv ups where q: "foldl (queue_row ?ex ?base force_update) ([], []) rows = (fv, ups)"
    by (cases "foldl (queue_row ?ex ?base force_update) ([], []) rows")
  from foldl_queue_row_sent [OF q] have
    fv: "\<forall>r\<in>set fv. long_row rows r" and ups: "\<forall>u\<in>set ups. \<exists>r. snd u = [r] \<and> long_row rows r"
    by simp_all
  have sent: "\<forall>row\<in>set (rows_sent call). long_row rows row"
    if "call = BatchUpdate ups \<or> call = Append sheet_range fv" for call
    using that fv ups by fastforce
  have "set (fst (snd (append_to_sheet api sheet_range rows force_update s)))
      \<subseteq> {BatchUpdate ups, Append sheet_range fv}"
  proof -
    have "set (fst (snd (append_new api sheet_range fv calls s')))
        \<subseteq> {BatchUpdate ups, Append sheet_range fv}"
      if "calls = [] \<or> calls = [BatchUpdate ups]" for calls s'
      using that append_new_calls [of api sheet_range fv calls s'] by auto
    then show ?thesis
      by (simp add: append_to_sheet_def q Let_def split: option.splits)
  qed
  with sent show "\<forall>call\<in>set (fst (snd (append_to_sheet api sheet_range rows force_update s))).
      \<forall>row\<in>set (rows_sent call). row \<in> set rows \<and> 7 \<le> length row"
    unfolding long_row_def by blast
next
  assume a: "service_ok api \<and> rows \<noteq> [] \<and> (\<forall>row\<in>set rows. length row < 7)"
  then have "foldl (queue_row ex base force_update) ([], []) rows = ([], [])" for ex base
    by (intro foldl_queue_row_skip) simp
  with a show "append_to_sheet api sheet_range rows force_update s = (True, [], s)"
    by (simp add: append_to_sheet_def append_new_def)
next
  assume "filter (\<lambda>row. 7 \<le> length row) rows \<noteq> []"
  moreover from this have "rows \<noteq> []" by auto
  ultimately show "append_to_sheet api sheet_range rows force_update s =
          append_to_sheet api sheet_range (filter (\<lambda>row. 7 \<le> length row) rows) force_update s"
    by (simp add: append_to_sheet_def foldl_queue_row_filter)
next
  assume "service_ok api \<and> values_get api sheet_range s = Some remote"
  then show "dom (get_existing_job_data api sheet_range s) =
            {r ! 6 | r. r \<in> set (filter (\<lambda>row. 7 \<le> length row) remote)}"
    by (auto simp: existing_keys)
qed

lemma example_append:
  "append_to_sheet list_api ''Job Matches!A2:G''
      (filter (\<lambda>row. 7 \<le> length row)
        [[''t9'', ''Analyst''],
         [''t9'', ''Lead'', ''Globex'', ''7.0'', ''fair'', ''CONSIDER'', ''k2''],
         [''t9'', ''Head'', ''Hooli'', ''9.0'', ''great'', ''PURSUE'', ''k9'']]) True remote_rows
     = (True,
        [BatchUpdate [(''Job Matches!A4'',
           [[''t9'', ''Lead'', ''Globex'', ''7.0'', ''fair'', ''CONSIDER'', ''k2'']])],
         Append ''Job Matches!A2:G''
           [[''t9'', ''Head'', ''Hooli'', ''9.0'', ''great'', ''PURSUE'', ''k9'']]],
        remote_rows @ [[''t9'', ''Head'', ''Hooli'', ''9.0'', ''great'', ''PURSUE'', ''k9'']])"
  by code_simp

lemma example_keys:
  "{r ! 6 | r. r \<in> set (filter (\<lambda>row. 7 \<le> length row) remote_rows)} = {''k1'', ''k2''}"
proof -
  let ?r1 = "[''t1'', ''Director'', ''Acme'', ''8.0'', ''good'', ''PURSUE'', ''k1'']"
  let ?r3 = "[''t3'', ''Lead'', ''Globex'', ''7.5'', ''fair'', ''CONSIDER'', ''k2'', ''u2'']"
  have long: "filter (\<lambda>row. 7 \<le> length row) remote_rows = [?r1, ?r3]"
    by (simp add: remote_rows_def)
  have "{r ! 6 | r. r \<in> set [?r1, ?r3]} = (\<lambda>r. r ! 6) ` set [?r1, ?r3]"
    by (rule Setcompr_eq_image)
  also have "\<dots> = {''k1'', ''k2''}"
    by simp
  finally show ?thesis
    unfolding long .
qed

theorem append_to_sheet_short_rows_witness:
  "append_to_sheet list_api ''Job Matches!A2:G'' [[''t9'', ''Analyst'']] True remote_rows
     = (True, [], remote_rows) \<and>
   append_to_sheet list_api ''Job Matches!A2:G''
      [[''t9'', ''Analyst''],
       [''t9'', ''Lead'', ''Globex'', ''7.0'', ''fair'', ''CONSIDER'', ''k2''],
       [''t9'', ''Head'', ''Hooli'', ''9.0'', ''great'', ''PURSUE'', ''k9'']] True remote_rows
     = (True,
        [BatchUpdate [(''Job Matches!A4'',
           [[''t9'', ''Lead'', ''Globex'', ''7.0'', ''fair'', ''CONSIDER'', ''k2'']])],
         Append ''Job Matches!A2:G''
           [[''t9'', ''Head'', ''Hooli'', ''9.0'', ''great'', ''PURSUE'', ''k9'']]],
        remote_rows @ [[''t9'', ''Head'', ''Hooli'', ''9.0'', ''great'', ''PURSUE'', ''k9'']]) \<and>
   dom (get_existing_job_data list_api ''Job Matches!A2:G'' remote_rows) = {''k1'', ''k2''}"
proof -
  let ?rows = "[[''t9'', ''Analyst''],
         [''t9'', ''Lead'', ''Globex'', ''7.0'', ''fair'', ''CONSIDER'', ''k2''],
         [''t9'', ''Head'', ''Hooli'', ''9.0'', ''great'', ''PURSUE'', ''k9'']]"
  have short: "service_ok list_api \<and> [[''t9'', ''Analyst'']] \<noteq> [] \<and>
      (\<forall>row\<in>set [[''t9'', ''Analyst'']]. length row < 7)"
    by (simp add: list_api_def)
  have some: "filter (\<lambda>row. 7 \<le> length row) ?rows \<noteq> []"
    by simp
  note all_short = append_to_sheet_short_rows
    [of list_api "''Job Matches!A2:G''" "[[''t9'', ''Analyst'']]" True remote_rows]
  note mixed = append_to_sheet_short_rows
    [of list_api "''Job Matches!A2:G''" ?rows True remote_rows]
  from all_short short
  have one: "append_to_sheet list_api ''Job Matches!A2:G'' [[''t9'', ''Analyst'']] True remote_rows
     = (True, [], remote_rows)"
    by blast
  from mixed some
  have "append_to_sheet list_api ''Job Matches!A2:G'' ?rows True remote_rows =
      append_to_sheet list_api ''Job Matches!A2:G'' (filter (\<lambda>row. 7 \<le> length row) ?rows)
        True remote_rows"
    by blast
  with one have calls: "append_to_sheet list_api ''Job Matches!A2:G'' [[''t9'', ''Analyst'']] True remote_rows
     = (True, [], remote_rows) \<and>
   append_to_sheet list_api ''Job Matches!A2:G'' ?rows True remote_rows
     = (True,
        [BatchUpdate [(''Job Matches!A4'',
           [[''t9'', ''Lead'', ''Globex'', ''7.0'', ''fair'', ''CONSIDER'', ''k2'']])],
         Append ''Job Matches!A2:G''
           [[''t9'', ''Head'', ''Hooli'', ''9.0'', ''great'', ''PURSUE'', ''k9'']]],
        remote_rows @ [[''t9'', ''Head'', ''Hooli'', ''9.0'', ''great'', ''PURSUE'', ''k9'']])"
    by (simp only: example_append)
  have read: "service_ok list_api \<and>
      values_get list_api ''Job Matches!A2:G'' remote_rows = Some remote_rows"
    by (simp add: list_api_def)
  from append_to_sheet_short_rows
    [of list_api "''Job Matches!A2:G''" ?rows True remote_rows remote_rows] read
  have "dom (get_existing_job_data list_api ''Job Matches!A2:G'' remote_rows) =
      {r ! 6 | r. r \<in> set (filter (\<lambda>row. 7 \<le> length row) remote_rows)}"
    by blast
  then have "dom (get_existing_job_data list_api ''Job Matches!A2:G'' remote_rows) = {''k1'', ''k2''}"
    by (simp only: example_keys)
  with calls show ?thesis
    by blast
qed

section \<open>The order of the analysis results\<close>

lemma sort_key_scores: "map key (sort_key key ys) = sort (map key ys)"
  by (rule properties_for_sort [symmetric]) simp_all

lemma sort_reverse_scores: "map key (sort_reverse key xs) = rev (sort (map key xs))"
proof -
  have "map key (sort_reverse key xs) = rev (map key (sort_key key (rev xs)))"
    unfolding sort_reverse_def by (rule rev_map [symmetric])
  also have "\<dots> = rev (sort (map key (rev xs)))"
    by (simp only: sort_key_scores)
  also have "sort (map key (rev xs)) = sort (map key xs)"
    by (rule properties_for_sort) simp_all
  finally show ?thesis .
qed

lemma sort_reverse_descending: "sorted_wrt (\<lambda>a b. key b \<le> key a) (sort_reverse key xs)"
proof -
  have "sorted (map key (sort_key key (rev xs)))"
    by simp
  then have "sorted_wrt (\<lambda>a b. key a \<le> key b) (sort_key key (rev xs))"
    by (simp only: sorted_wrt_map)
  then show ?thesis
    unfolding sort_reverse_def by (simp only: sorted_wrt_rev)
qed

lemma mset_sort_reverse: "mset (sort_reverse key xs) = mset xs"
  by (simp add: sort_reverse_def)

lemma mset_foldl_collect:
  "mset (foldl collect_result acc os) =
     mset acc + image_mset the (filter_mset (\<lambda>x. x \<noteq> None) (mset os))"
  by (induction os arbitrary: acc) (auto simp: collect_result_def)

lemma mset_collect:
  "mset (collect_results os) = image_mset the (filter_mset (\<lambda>x. x \<noteq> None) (mset os))"
  by (simp add: collect_results_def mset_foldl_collect)

lemma example_sorted:
  "analyze_jobs_batch True example_outcomes =
     [\<lparr>result_job_id = ''j2'', match_score = 9\<rparr>, \<lparr>result_job_id = ''j1'', match_score = 6\<rparr>,
      \<lparr>result_job_id = ''j3'', match_score = 6\<rparr>]"
  by (simp add: analyze_jobs_batch_def example_outcomes_def sort_reverse_def collect_results_def
      collect_result_def)

lemma example_sorted_rev:
  "analyze_jobs_batch True (rev example_outcomes) =
     [\<lparr>result_job_id = ''j2'', match_score = 9\<rparr>, \<lparr>result_job_id = ''j3'', match_score = 6\<rparr>,
      \<lparr>result_job_id = ''j1'', match_score = 6\<rparr>]"
  by (simp add: analyze_jobs_batch_def example_outcomes_def sort_reverse_def collect_results_def
      collect_result_def)

text \<open>
  C8. Whatever the order in which the outcomes of the tasks were collected, the list
  that \<open>analyze_jobs_batch\<close> returns is in descending order of match score; when the CV
  was parsed it holds exactly the collected results; and two orders of collection of the
  same outcomes give the same sequence of scores.
\<close>

theorem analyze_jobs_batch_sorted:
  "descending (analyze_jobs_batch cv_ok outcomes) \<and>
   (cv_ok \<longrightarrow> mset (analyze_jobs_batch cv_ok outcomes) = mset (collect_results outcomes)) \<and>
   (mset outcomes' = mset outcomes \<longrightarrow>
      map match_score (analyze_jobs_batch cv_ok outcomes') =
      map match_score (analyze_jobs_batch cv_ok outcomes))"
proof (intro conjI impI)
  show "descending (analyze_jobs_batch cv_ok outcomes)"
    by (simp add: descending_def analyze_jobs_batch_def sort_reverse_descending)
next
  assume cv_ok
  then show "mset (analyze_jobs_batch cv_ok outcomes) = mset (collect_results outcomes)"
    by (simp add: analyze_jobs_batch_def mset_sort_reverse)
next
  assume "mset outcomes' = mset outcomes"
  then have "mset (map match_score (collect_results outcomes')) =
      mset (map match_score (collect_results outcomes))"
    by (simp add: mset_collect)
  then have "sort (map match_score (collect_results outcomes')) =
      sort (map match_score (collect_results outcomes))"
    by (intro properties_for_sort) simp_all
  then show "map match_score (analyze_jobs_batch cv_ok outcomes') =
      map match_score (analyze_jobs_batch cv_ok outcomes)"
    by (simp add: analyze_jobs_batch_def sort_reverse_scores)
qed

theorem analyze_jobs_batch_sorted_witness:
  "descending (analyze_jobs_batch True example_outcomes) \<and>
   analyze_jobs_batch True example_outcomes =
     [\<lparr>result_job_id = ''j2'', match_score = 9\<rparr>, \<lparr>result_job_id = ''j1'', match_score = 6\<rparr>,
      \<lparr>result_job_id = ''j3'', match_score = 6\<rparr>] \<and>
   analyze_jobs_batch True (rev example_outcomes) =
     [\<lparr>result_job_id = ''j2'', match_score = 9\<rparr>, \<lparr>result_job_id = ''j3'', match_score = 6\<rparr>,
      \<lparr>result_job_id = ''j1'', match_score = 6\<rparr>] \<and>
   map match_score (analyze_jobs_batch True (rev example_outcomes)) =
     map match_score (analyze_jobs_batch True example_outcomes) \<and>
   mset (analyze_jobs_batch True example_outcomes) = mset (collect_results example_outcomes)"
proof -
  note t = analyze_jobs_batch_sorted [of True example_outcomes "rev example_outcomes"]
  have m: "mset (rev example_outcomes) = mset example_outcomes"
    by simp
  from t have d: "descending (analyze_jobs_batch True example_outcomes)"
    by blast
  from t m have e: "map match_score (analyze_jobs_batch True (rev example_outcomes)) =
     map match_score (analyze_jobs_batch True example_outcomes)"
    by blast
  from t have c: "mset (analyze_jobs_batch True example_outcomes) = mset (collect_results example_outcomes)"
    by blast
  from d e c example_sorted example_sorted_rev show ?thesis
    by blast
qed

section \<open>The response extractor\<close>

lemma extract_score_upd:
  "extract_score t m = m(''score'' \<mapsto> Number (score_of (re_search score_pattern t)))"
  by (simp add: extract_score_def score_of_def split: option.splits)

lemma extract_fit_upd:
  "extract_fit tag t m =
     (m(tag \<mapsto> Number (fit_of (re_search (section_pattern tag) t))))
       (tag @ ''_text'' \<mapsto> Text (text_of (re_search (section_pattern tag) t)))"
  by (simp add: extract_fit_def fit_of_def text_of_def number_in_def Let_def split: option.splits)

lemma extract_text_upd:
  "extract_text tag t m = m(tag \<mapsto> Text (text_of (re_search (section_pattern tag) t)))"
  by (simp add: extract_text_def text_of_def split: option.splits)

lemma extract_recommendation_upd:
  "extract_recommendation t m =
     (m(''recommendation'' \<mapsto> Text (text_of (re_search (section_pattern ''recommendation'') t))))
       (''recommendation_code'' \<mapsto> Text (code_of (re_search (section_pattern ''recommendation'') t)))"
  by (simp add: extract_recommendation_def text_of_def code_of_def Let_def split: option.splits)

lemma extract_closed:
  "extract_response_sections t =
     [''score'' \<mapsto> Number (score_of (re_search score_pattern t)),
      ''human_fit'' \<mapsto> Number (fit_of (re_search (section_pattern ''human_fit'') t)),
      ''human_fit_text'' \<mapsto> Text (text_of (re_search (section_pattern ''human_fit'') t)),
      ''ats_fit'' \<mapsto> Number (fit_of (re_search (section_pattern ''ats_fit'') t)),
      ''ats_fit_text'' \<mapsto> Text (text_of (re_search (section_pattern ''ats_fit'') t)),
      ''key_strengths'' \<mapsto> Text (text_of (re_search (section_pattern ''key_strengths'') t)),
      ''critical_gaps'' \<mapsto> Text (text_of (re_search (section_pattern ''critical_gaps'') t)),
      ''cv_tailoring'' \<mapsto> Text (text_of (re_search (section_pattern ''cv_tailoring'') t)),
      ''experience_positioning'' \<mapsto> Text (text_of (re_search (section_pattern ''experience_positioning'') t)),
      ''talking_points'' \<mapsto> Text (text_of (re_search (section_pattern ''talking_points'') t)),
      ''recommendation'' \<mapsto> Text (text_of (re_search (section_pattern ''recommendation'') t)),
      ''recommendation_code'' \<mapsto> Text (code_of (re_search (section_pattern ''recommendation'') t)),
      ''summary'' \<mapsto> Text (text_of (re_search (section_pattern ''summary'') t))]"
  unfolding extract_response_sections_def Let_def extract_score_upd extract_fit_upd extract_text_upd
    extract_recommendation_upd
  by simp

lemma search_empty: "re_search score_pattern [] = None" "re_search (section_pattern tag) [] = None"
  by (simp_all add: score_pattern_def section_pattern_def lit_def)

lemma extract_dom:
  "dom (extract_response_sections t) = set numeric_keys \<union> set text_keys \<union> {''recommendation_code''}"
  unfolding extract_closed numeric_keys_def text_keys_def by auto

lemma extract_empty:
  "extract_response_sections [] =
     [''score'' \<mapsto> Number 0, ''human_fit'' \<mapsto> Number 0, ''human_fit_text'' \<mapsto> Text [],
      ''ats_fit'' \<mapsto> Number 0, ''ats_fit_text'' \<mapsto> Text [], ''key_strengths'' \<mapsto> Text [],
      ''critical_gaps'' \<mapsto> Text [], ''cv_tailoring'' \<mapsto> Text [],
      ''experience_positioning'' \<mapsto> Text [], ''talking_points'' \<mapsto> Text [],
      ''recommendation'' \<mapsto> Text [], ''recommendation_code'' \<mapsto> Text ''REVIEW'',
      ''summary'' \<mapsto> Text []]"
  unfolding extract_closed search_empty
  by (simp add: score_of_def fit_of_def text_of_def code_of_def)

text \<open>
  C3. For every text the extraction returns a complete record: its keys are the three
  numeric keys, the nine text keys and the recommendation code, a numeric key is bound
  to a number and every other key to a text. The function has no failing path: the one
  call that can raise, \<open>float\<close>, is caught and gives 0. For the empty text every number
  is 0, every text is empty and the code is REVIEW.
\<close>

theorem extract_complete:
  "dom (extract_response_sections t) =
     set numeric_keys \<union> set text_keys \<union> {''recommendation_code''} \<and>
   (\<forall>k\<in>set numeric_keys. \<exists>v. extract_response_sections t k = Some (Number v)) \<and>
   (\<forall>k\<in>set text_keys \<union> {''recommendation_code''}.
      \<exists>s. extract_response_sections t k = Some (Text s)) \<and>
   (\<forall>k\<in>set numeric_keys. extract_response_sections [] k = Some (Number 0)) \<and>
   (\<forall>k\<in>set text_keys. extract_response_sections [] k = Some (Text [])) \<and>
   extract_response_sections [] ''recommendation_code'' = Some (Text ''REVIEW'')"
proof (intro conjI)
  show "dom (extract_response_sections t) =
      set numeric_keys \<union> set text_keys \<union> {''recommendation_code''}"
    by (rule extract_dom)
  show "\<forall>k\<in>set numeric_keys. \<exists>v. extract_response_sections t k = Some (Number v)"
    by (simp add: numeric_keys_def extract_closed)
  show "\<forall>k\<in>set text_keys \<union> {''recommendation_code''}.
      \<exists>s. extract_response_sections t k = Some (Text s)"
    by (simp add: text_keys_def extract_closed)
  show "\<forall>k\<in>set numeric_keys. extract_response_sections [] k = Some (Number 0)"
    by (simp add: numeric_keys_def extract_empty)
  show "\<forall>k\<in>set text_keys. extract_response_sections [] k = Some (Text [])"
    by (simp add: text_keys_def extract_empty)
  show "extract_response_sections [] ''recommendation_code'' = Some (Text ''REVIEW'')"
    by (simp add: extract_empty)
qed

theorem extract_complete_witness:
  "extract_response_sections [] ''score'' = Some (Number 0) \<and>
   extract_response_sections [] ''human_fit'' = Some (Number 0) \<and>
   extract_response_sections [] ''ats_fit'' = Some (Number 0) \<and>
   extract_response_sections [] ''human_fit_text'' = Some (Text []) \<and>
   extract_response_sections [] ''recommendation'' = Some (Text []) \<and>
   extract_response_sections [] ''summary'' = Some (Text []) \<and>
   extract_response_sections [] ''recommendation_code'' = Some (Text ''REVIEW'') \<and>
   dom (extract_response_sections response_priority) =
     set numeric_keys \<union> set text_keys \<union> {''recommendation_code''}"
  using extract_complete [of response_priority]
  by (simp add: numeric_keys_def text_keys_def)











end
